theory Spec2Isabelle
  imports Main
begin

section \<open>Data model\<close>

text \<open>
  The service is a FastAPI application over two SQLAlchemy tables
  (\<^verbatim>\<open>app/models.py\<close>).  A table is the list of its rows in insertion order;
  the primary key column \<^verbatim>\<open>id\<close> is written \<open>veiculo_id\<close> / \<open>usuario_id\<close> because
  \<open>id\<close> is the identity function of HOL.  Python strings are \<open>string\<close>; characters
  outside ASCII are spelled as their UTF-8 bytes.
\<close>

record veiculo =
  veiculo_id :: int
  nome :: string
  modelo :: string
  status :: string

record usuario =
  usuario_id :: int
  username :: string
  hashed_password :: string

record database =
  veiculos :: "veiculo list"
  usuarios :: "usuario list"

definition empty_database :: database where
  "empty_database = \<lparr>veiculos = [], usuarios = []\<rparr>"

text \<open>
  \<^verbatim>\<open>app/schemas.py\<close>.  \<open>VeiculoCreate\<close> and \<open>UsuarioCreate\<close> are the validated
  request bodies, \<open>Usuario\<close> (fields \<open>username\<close>, \<open>id\<close>) and \<open>Token\<close> are response
  models.  The response model \<open>schemas.Veiculo\<close> has the four columns of the row and
  is represented by the row itself.
\<close>

record veiculo_create =
  create_nome :: string
  create_modelo :: string
  create_status :: string

record usuario_create =
  create_username :: string
  create_password :: string

record usuario_schema =
  schema_username :: string
  schema_id :: int

text \<open>
  Everything an endpoint can end with instead of its response: an
  \<^verbatim>\<open>HTTPException(status_code, detail, headers)\<close> raised by the code, the 422 that
  the framework answers when a request body does not validate, and the database's
  integrity error when a \<^verbatim>\<open>unique=True\<close> column would hold a value twice
  (no handler catches it: the transaction is rolled back and the request fails).
  \<open>Unauthenticated\<close> is the one outward signal of the access guard of the spec
  (section 4.5), whatever made it reject.  \<open>OverflowError\<close> is what the SQLite
  driver raises when a query parameter is an integer that does not fit a signed
  64-bit value; no handler catches it either, and the request ends as a server
  error.
\<close>

datatype failure =
    HTTPException int string "(string \<times> string) list"
  | RequestValidationError
  | IntegrityError
  | Unauthenticated
  | OverflowError

definition veiculo_nao_encontrado :: string where
  "veiculo_nao_encontrado =
     ''Ve'' @ [CHR 0xC3, CHR 0xAD] @ ''culo n'' @ [CHR 0xC3, CHR 0xA3] @ ''o encontrado''"

definition veiculo_excluido :: string where
  "veiculo_excluido =
     ''Ve'' @ [CHR 0xC3, CHR 0xAD] @ ''culo exclu'' @ [CHR 0xC3, CHR 0xAD] @ ''do com sucesso''"

definition usuario_ou_senha_incorretos :: string where
  "usuario_ou_senha_incorretos =
     ''Usu'' @ [CHR 0xC3, CHR 0xA1] @ ''rio ou senha incorretos''"

section \<open>The store\<close>

text \<open>
  An \<^verbatim>\<open>Integer\<close> primary key is assigned by the database on insert: one more
  than the largest key of the table, 1 for an empty table.
\<close>

definition next_id :: "int list \<Rightarrow> int" where
  "next_id ids = (if ids = [] then 1 else Max (set ids) + 1)"

text \<open>
  A Python \<^verbatim>\<open>int\<close> is unbounded, an SQLite \<^verbatim>\<open>INTEGER\<close> is a signed 64-bit
  value: a query that compares a column with an integer outside that range does
  not run, the driver raises \<^verbatim>\<open>OverflowError\<close>.
\<close>

definition sqlite_integer :: "int \<Rightarrow> bool" where
  "sqlite_integer i \<longleftrightarrow> - (2 ^ 63) \<le> i \<and> i < 2 ^ 63"

text \<open>\<^verbatim>\<open>db.query(models.Veiculo).filter(models.Veiculo.id == veiculo_id).first()\<close>\<close>

definition get_veiculo :: "database \<Rightarrow> int \<Rightarrow> failure + veiculo option" where
  "get_veiculo db vid =
     (if sqlite_integer vid then Inr (find (\<lambda>v. veiculo_id v = vid) (veiculos db))
      else Inl OverflowError)"

text \<open>\<^verbatim>\<open>db.query(models.Usuario).filter(models.Usuario.username == username).first()\<close>\<close>

definition get_usuario_by_username :: "database \<Rightarrow> string \<Rightarrow> usuario option" where
  "get_usuario_by_username db name = find (\<lambda>u. username u = name) (usuarios db)"

text \<open>
  Assigning \<^verbatim>\<open>veiculo.status\<close> and committing writes the column of the row with
  that primary key; \<^verbatim>\<open>db.delete\<close> and commit removes the row with that key.
\<close>

definition set_status :: "int \<Rightarrow> string \<Rightarrow> veiculo list \<Rightarrow> veiculo list" where
  "set_status vid st rows = map (\<lambda>v. if veiculo_id v = vid then v\<lparr>status := st\<rparr> else v) rows"

definition delete_row :: "int \<Rightarrow> veiculo list \<Rightarrow> veiculo list" where
  "delete_row vid rows = filter (\<lambda>v. veiculo_id v \<noteq> vid) rows"

section \<open>Request validation\<close>

text \<open>
  A JSON request body is the map from its keys to its (string) values.
  \<^verbatim>\<open>VeiculoCreate\<close> requires \<open>nome\<close> and \<open>modelo\<close>; \<open>status\<close> defaults to
  \<^verbatim>\<open>"DESCONECTADO"\<close>; other keys are ignored.
\<close>

definition VeiculoCreate :: "(string \<rightharpoonup> string) \<Rightarrow> failure + veiculo_create" where
  "VeiculoCreate body =
     (case body ''nome'' of
        None \<Rightarrow> Inl RequestValidationError
      | Some n \<Rightarrow>
          (case body ''modelo'' of
             None \<Rightarrow> Inl RequestValidationError
           | Some m \<Rightarrow>
               Inr \<lparr>create_nome = n, create_modelo = m,
                    create_status = (case body ''status'' of
                                       None \<Rightarrow> ''DESCONECTADO''
                                     | Some s \<Rightarrow> s)\<rparr>))"

section \<open>Vehicle endpoints (app/main.py)\<close>

text \<open>
  Each endpoint takes the session and the \<open>current_user\<close> its dependency resolved,
  and returns its outcome together with the store it leaves.
\<close>

definition listar_veiculos :: "database \<Rightarrow> usuario \<Rightarrow> (failure + veiculo list) \<times> database" where
  "listar_veiculos db current_user = (Inr (veiculos db), db)"

definition criar_veiculo ::
  "veiculo_create \<Rightarrow> database \<Rightarrow> usuario \<Rightarrow> (failure + veiculo) \<times> database" where
  "criar_veiculo v db current_user =
     (let db_veiculo = \<lparr>veiculo_id = next_id (map veiculo_id (veiculos db)),
                        nome = create_nome v, modelo = create_modelo v,
                        status = create_status v\<rparr>
      in (Inr db_veiculo, db\<lparr>veiculos := veiculos db @ [db_veiculo]\<rparr>))"

definition obter_veiculo :: "int \<Rightarrow> database \<Rightarrow> usuario \<Rightarrow> (failure + veiculo) \<times> database" where
  "obter_veiculo vid db current_user =
     (case get_veiculo db vid of
        Inl e \<Rightarrow> (Inl e, db)
      | Inr None \<Rightarrow> (Inl (HTTPException 404 veiculo_nao_encontrado []), db)
      | Inr (Some v) \<Rightarrow> (Inr v, db))"

definition atualizar_status ::
  "int \<Rightarrow> string \<Rightarrow> database \<Rightarrow> usuario \<Rightarrow> (failure + veiculo) \<times> database" where
  "atualizar_status vid st db current_user =
     (case get_veiculo db vid of
        Inl e \<Rightarrow> (Inl e, db)
      | Inr None \<Rightarrow> (Inl (HTTPException 404 veiculo_nao_encontrado []), db)
      | Inr (Some v) \<Rightarrow>
          (Inr (v\<lparr>status := st\<rparr>), db\<lparr>veiculos := set_status vid st (veiculos db)\<rparr>))"

definition excluir_veiculo :: "int \<Rightarrow> database \<Rightarrow> usuario \<Rightarrow> (failure + string) \<times> database" where
  "excluir_veiculo vid db current_user =
     (case get_veiculo db vid of
        Inl e \<Rightarrow> (Inl e, db)
      | Inr None \<Rightarrow> (Inl (HTTPException 404 veiculo_nao_encontrado []), db)
      | Inr (Some v) \<Rightarrow>
          (Inr veiculo_excluido, db\<lparr>veiculos := delete_row vid (veiculos db)\<rparr>))"

subsection \<open>The same operations in app/crud.py\<close>

definition create_veiculo :: "database \<Rightarrow> veiculo_create \<Rightarrow> veiculo \<times> database" where
  "create_veiculo db v =
     (let db_veiculo = \<lparr>veiculo_id = next_id (map veiculo_id (veiculos db)),
                        nome = create_nome v, modelo = create_modelo v,
                        status = create_status v\<rparr>
      in (db_veiculo, db\<lparr>veiculos := veiculos db @ [db_veiculo]\<rparr>))"

definition update_veiculo_status ::
  "database \<Rightarrow> int \<Rightarrow> string \<Rightarrow> (failure + veiculo option) \<times> database" where
  "update_veiculo_status db vid st =
     (case get_veiculo db vid of
        Inl e \<Rightarrow> (Inl e, db)
      | Inr None \<Rightarrow> (Inr None, db)
      | Inr (Some v) \<Rightarrow>
          (Inr (Some (v\<lparr>status := st\<rparr>)), db\<lparr>veiculos := set_status vid st (veiculos db)\<rparr>))"

definition delete_veiculo :: "database \<Rightarrow> int \<Rightarrow> (failure + veiculo option) \<times> database" where
  "delete_veiculo db vid =
     (case get_veiculo db vid of
        Inl e \<Rightarrow> (Inl e, db)
      | Inr None \<Rightarrow> (Inr None, db)
      | Inr (Some v) \<Rightarrow> (Inr (Some v), db\<lparr>veiculos := delete_row vid (veiculos db)\<rparr>))"

section \<open>The authentication module as a parameter\<close>

text \<open>
  Modelled from the spec: \<^verbatim>\<open>app/auth.py\<close> is not among the repository's files;
  \<^verbatim>\<open>main.py\<close> imports from it \<open>authenticate_user\<close>, \<open>create_access_token\<close>,
  \<open>get_current_active_user\<close>, \<open>get_password_hash\<close> and the constant
  \<open>ACCESS_TOKEN_EXPIRE_MINUTES\<close>.  The endpoints below take them as one record, so
  what is proved of an endpoint holds for every implementation of the module with
  these signatures.  The signatures follow the spec (sections 4.1 to 4.5):
  \<^item> \<open>authenticate_user db username password\<close> is the user or nothing;
  \<^item> \<open>create_access_token sub expires_delta now\<close> is the token string for the
    claim \<^verbatim>\<open>{"sub": sub}\<close>, the lifetime in seconds and the clock reading;
  \<^item> \<open>get_password_hash salt plaintext\<close> is the digest, the hasher's randomness
    made an argument;
  \<^item> \<open>get_current_active_user now db authorization\<close> reads the clock, the store and
    the request's \<^verbatim>\<open>Authorization\<close> header (if any) and is the rejection or the
    resolved user; it only reads the store.
\<close>

record auth_module =
  authenticate_user :: "database \<Rightarrow> string \<Rightarrow> string \<Rightarrow> usuario option"
  create_access_token :: "string \<Rightarrow> int \<Rightarrow> int \<Rightarrow> string"
  ACCESS_TOKEN_EXPIRE_MINUTES :: int
  get_password_hash :: "string \<Rightarrow> string \<Rightarrow> string"
  get_current_active_user :: "int \<Rightarrow> database \<Rightarrow> string option \<Rightarrow> failure + usuario"

text \<open>\<^verbatim>\<open>timedelta(minutes=m)\<close>, in seconds.\<close>

definition timedelta_minutes :: "int \<Rightarrow> int" where
  "timedelta_minutes m = 60 * m"

section \<open>Login and registration (app/main.py)\<close>

record oauth2_form =
  form_username :: string
  form_password :: string

definition login_for_access_token ::
  "auth_module \<Rightarrow> int \<Rightarrow> database \<Rightarrow> oauth2_form \<Rightarrow> failure + (string \<times> string) list" where
  "login_for_access_token A now db form_data =
     (case authenticate_user A db (form_username form_data) (form_password form_data) of
        None \<Rightarrow>
          Inl (HTTPException 401 usuario_ou_senha_incorretos [(''WWW-Authenticate'', ''Bearer'')])
      | Some user \<Rightarrow>
          (let access_token_expires = timedelta_minutes (ACCESS_TOKEN_EXPIRE_MINUTES A);
               access_token = create_access_token A (username user) access_token_expires now
           in Inr [(''access_token'', access_token), (''token_type'', ''bearer'')]))"

text \<open>
  \<^verbatim>\<open>db.add(db_usuario); db.commit(); db.refresh(db_usuario)\<close>: the
  \<^verbatim>\<open>unique=True\<close> index on \<open>username\<close> refuses a second row with the same name.
\<close>

definition add_usuario :: "database \<Rightarrow> string \<Rightarrow> string \<Rightarrow> (failure + usuario) \<times> database" where
  "add_usuario db name digest =
     (if name \<in> set (map username (usuarios db)) then (Inl IntegrityError, db)
      else
        (let db_usuario = \<lparr>usuario_id = next_id (map usuario_id (usuarios db)),
                           username = name, hashed_password = digest\<rparr>
         in (Inr db_usuario, db\<lparr>usuarios := usuarios db @ [db_usuario]\<rparr>)))"

text \<open>\<^verbatim>\<open>response_model=schemas.Usuario\<close>: the fields \<open>username\<close> and \<open>id\<close> of the row.\<close>

definition Usuario :: "usuario \<Rightarrow> usuario_schema" where
  "Usuario row = \<lparr>schema_username = username row, schema_id = usuario_id row\<rparr>"

definition criar_usuario ::
  "auth_module \<Rightarrow> string \<Rightarrow> database \<Rightarrow> usuario_create \<Rightarrow> (failure + usuario_schema) \<times> database" where
  "criar_usuario A salt db u =
     (let hashed = get_password_hash A salt (create_password u)
      in case add_usuario db (create_username u) hashed of
           (Inl e, db') \<Rightarrow> (Inl e, db')
         | (Inr db_usuario, db') \<Rightarrow> (Inr (Usuario db_usuario), db'))"

section \<open>User operations of app/crud.py and manage\_users.py\<close>

text \<open>
  \<^verbatim>\<open>pwd_context = CryptContext(schemes=["bcrypt"], deprecated="auto")\<close> is an object
  of the passlib library: its two methods are parameters, \<open>hash\<close> with its salt as
  an argument.
\<close>

record crypt_context =
  pwd_hash :: "string \<Rightarrow> string \<Rightarrow> string"
  pwd_verify :: "string \<Rightarrow> string \<Rightarrow> bool"

definition create_usuario ::
  "crypt_context \<Rightarrow> string \<Rightarrow> database \<Rightarrow> usuario_create \<Rightarrow> (failure + usuario) \<times> database" where
  "create_usuario pwd_context salt db u =
     (let hashed = pwd_hash pwd_context salt (create_password u)
      in add_usuario db (create_username u) hashed)"

definition delete_usuario :: "database \<Rightarrow> int \<Rightarrow> (failure + usuario option) \<times> database" where
  "delete_usuario db uid =
     (if \<not> sqlite_integer uid then (Inl OverflowError, db)
      else
        (case find (\<lambda>u. usuario_id u = uid) (usuarios db) of
           None \<Rightarrow> (Inr None, db)
         | Some u \<Rightarrow>
             (Inr (Some u), db\<lparr>usuarios := filter (\<lambda>r. usuario_id r \<noteq> uid) (usuarios db)\<rparr>)))"

text \<open>
  The command line of \<^verbatim>\<open>manage_users.py\<close>: \<open>--username\<close> and \<open>--password\<close> are
  optional arguments, and \<^verbatim>\<open>not args.username\<close> holds for a missing and for an
  empty one.
\<close>

datatype action = Create | List | Delete

definition falsy :: "string option \<Rightarrow> bool" where
  "falsy a = (case a of None \<Rightarrow> True | Some s \<Rightarrow> s = [])"

definition manage_users ::
  "crypt_context \<Rightarrow> string \<Rightarrow> database \<Rightarrow> action \<Rightarrow> string option \<Rightarrow> string option \<Rightarrow> database" where
  "manage_users pwd_context salt db act arg_username arg_password =
     (case act of
        Create \<Rightarrow>
          (case (arg_username, arg_password) of
             (Some name, Some pw) \<Rightarrow>
               if falsy arg_username \<or> falsy arg_password then db
               else snd (create_usuario pwd_context salt db
                           \<lparr>create_username = name, create_password = pw\<rparr>)
           | _ \<Rightarrow> db)
      | List \<Rightarrow> db
      | Delete \<Rightarrow>
          (case arg_username of
             None \<Rightarrow> db
           | Some name \<Rightarrow>
               if falsy arg_username then db
               else (case get_usuario_by_username db name of
                       None \<Rightarrow> db
                     | Some u \<Rightarrow> snd (delete_usuario db (usuario_id u)))))"

section \<open>Protected requests\<close>

text \<open>
  The five vehicle endpoints declare
  \<^verbatim>\<open>current_user: schemas.Usuario = Depends(get_current_active_user)\<close>: the
  framework calls the dependency first, answers with its exception when it raises,
  and calls the endpoint with its result otherwise.  A request body is validated
  after the dependencies.  \<open>operation\<close> is the route with its path, query and body
  parameters.
\<close>

datatype operation =
    ListarVeiculos
  | CriarVeiculo "string \<rightharpoonup> string"
  | ObterVeiculo int
  | AtualizarStatus int string
  | ExcluirVeiculo int

datatype reply = VeiculoList "veiculo list" | VeiculoReply veiculo | MessageReply string

definition respond :: "('a \<Rightarrow> reply) \<Rightarrow> (failure + 'a) \<times> database \<Rightarrow> (failure + reply) \<times> database" where
  "respond wrap out = (map_sum (\<lambda>e. e) wrap (fst out), snd out)"

fun endpoint :: "operation \<Rightarrow> database \<Rightarrow> usuario \<Rightarrow> (failure + reply) \<times> database" where
  "endpoint ListarVeiculos db u = respond VeiculoList (listar_veiculos db u)"
| "endpoint (CriarVeiculo body) db u =
     (case VeiculoCreate body of
        Inl e \<Rightarrow> (Inl e, db)
      | Inr v \<Rightarrow> respond VeiculoReply (criar_veiculo v db u))"
| "endpoint (ObterVeiculo vid) db u = respond VeiculoReply (obter_veiculo vid db u)"
| "endpoint (AtualizarStatus vid st) db u = respond VeiculoReply (atualizar_status vid st db u)"
| "endpoint (ExcluirVeiculo vid) db u = respond MessageReply (excluir_veiculo vid db u)"

definition protected_request ::
  "auth_module \<Rightarrow> int \<Rightarrow> database \<Rightarrow> string option \<Rightarrow> operation \<Rightarrow> (failure + reply) \<times> database" where
  "protected_request A now db authorization op =
     (case get_current_active_user A now db authorization of
        Inl e \<Rightarrow> (Inl e, db)
      | Inr current_user \<Rightarrow> endpoint op db current_user)"

section \<open>Histories of the store\<close>

text \<open>
  Everything in the repository that writes the store: a registration request, a
  protected request, a run of the management script.  A history starts from the
  empty tables that \<^verbatim>\<open>create_all\<close> makes.
\<close>

datatype event =
    Registration string usuario_create
  | Protected int "string option" operation
  | Script string action "string option" "string option"

fun step :: "auth_module \<Rightarrow> crypt_context \<Rightarrow> database \<Rightarrow> event \<Rightarrow> database" where
  "step A ctx db (Registration salt u) = snd (criar_usuario A salt db u)"
| "step A ctx db (Protected now authorization op) = snd (protected_request A now db authorization op)"
| "step A ctx db (Script salt act arg_username arg_password) =
     manage_users ctx salt db act arg_username arg_password"

definition run :: "auth_module \<Rightarrow> crypt_context \<Rightarrow> event list \<Rightarrow> database" where
  "run A ctx evs = foldl (step A ctx) empty_database evs"

section \<open>The token scheme of the spec\<close>

text \<open>
  Modelled from the spec: the issuer, the validator, the login check and the access
  guard live in the missing \<^verbatim>\<open>app/auth.py\<close>; the definitions of this section
  follow sections 3 and 4.2 to 4.5 of the spec.  The configuration is passed
  explicitly (section 9): the signing secret, the lifetime in minutes, the MAC
  (a function of the secret and the message, its tag a number) and the password
  hasher.  Timestamps are seconds.
\<close>

record auth_config =
  SECRET_KEY :: string
  ttl_minutes :: int
  mac :: "string \<Rightarrow> string \<Rightarrow> nat"
  hasher :: crypt_context

definition TTL :: "auth_config \<Rightarrow> int" where
  "TTL cfg = timedelta_minutes (ttl_minutes cfg)"

record claims =
  subject :: string
  issued_at :: int
  expires_at :: int

datatype auth_error = Malformed | BadSignature | Expired

subsection \<open>Serialisation\<close>

text \<open>
  Modelled from the spec: the spec fixes no wire format, only that a token string is
  the serialised claims plus a signature and that a validator can split it again.
  Here numbers are written in decimal, the claims are
  \<^verbatim>\<open>issued_at.expires_at.subject\<close> (the subject last, so that it may hold any
  character) and the token is \<^verbatim>\<open>signature.claims\<close>.
\<close>

definition digit_char :: "nat \<Rightarrow> char" where
  "digit_char d = char_of (48 + d)"

definition digit_val :: "char \<Rightarrow> nat option" where
  "digit_val c =
     (let n = (of_char c :: nat) in if 48 \<le> n \<and> n \<le> 57 then Some (n - 48) else None)"

fun show_nat :: "nat \<Rightarrow> string" where
  "show_nat n =
     (if n < 10 then [digit_char n] else show_nat (n div 10) @ [digit_char (n mod 10)])"

fun read_digits :: "nat \<Rightarrow> string \<Rightarrow> nat option" where
  "read_digits acc [] = Some acc"
| "read_digits acc (c # cs) =
     (case digit_val c of None \<Rightarrow> None | Some d \<Rightarrow> read_digits (10 * acc + d) cs)"

definition parse_nat :: "string \<Rightarrow> nat option" where
  "parse_nat s = (if s = [] then None else read_digits 0 s)"

definition show_int :: "int \<Rightarrow> string" where
  "show_int i = (if i < 0 then CHR ''-'' # show_nat (nat (- i)) else show_nat (nat i))"

definition parse_int :: "string \<Rightarrow> int option" where
  "parse_int s =
     (case s of
        [] \<Rightarrow> None
      | c # r \<Rightarrow>
          if c = CHR ''-'' then map_option (\<lambda>n. - int n) (parse_nat r)
          else map_option int (parse_nat s))"

definition split_dot :: "string \<Rightarrow> (string \<times> string) option" where
  "split_dot s =
     (if CHR ''.'' \<in> set s
      then Some (takeWhile (\<lambda>c. c \<noteq> CHR ''.'') s, tl (dropWhile (\<lambda>c. c \<noteq> CHR ''.'') s))
      else None)"

definition serialize_claims :: "claims \<Rightarrow> string" where
  "serialize_claims c =
     show_int (issued_at c) @ ''.'' @ show_int (expires_at c) @ ''.'' @ subject c"

definition parse_claims :: "string \<Rightarrow> claims option" where
  "parse_claims s =
     (case split_dot s of
        None \<Rightarrow> None
      | Some (a, r) \<Rightarrow>
          (case split_dot r of
             None \<Rightarrow> None
           | Some (b, sub) \<Rightarrow>
               (case parse_int a of
                  None \<Rightarrow> None
                | Some iat \<Rightarrow>
                    (case parse_int b of
                       None \<Rightarrow> None
                     | Some ex \<Rightarrow> Some \<lparr>subject = sub, issued_at = iat, expires_at = ex\<rparr>))))"

subsection \<open>Token Issuer (spec 4.2)\<close>

definition signature :: "auth_config \<Rightarrow> string \<Rightarrow> string" where
  "signature cfg payload = show_nat (mac cfg (SECRET_KEY cfg) payload)"

definition mint :: "auth_config \<Rightarrow> claims \<Rightarrow> string" where
  "mint cfg c = (let payload = serialize_claims c in signature cfg payload @ ''.'' @ payload)"

definition issue :: "auth_config \<Rightarrow> string \<Rightarrow> int \<Rightarrow> string" where
  "issue cfg sub now = mint cfg \<lparr>subject = sub, issued_at = now, expires_at = now + TTL cfg\<rparr>"

subsection \<open>Token Validator (spec 4.3)\<close>

text \<open>The parts of a token string: its signature, its payload and the payload's claims.\<close>

definition token_parts :: "string \<Rightarrow> (string \<times> string \<times> claims) option" where
  "token_parts tok =
     (case split_dot tok of
        None \<Rightarrow> None
      | Some (sg, payload) \<Rightarrow>
          (case parse_claims payload of
             None \<Rightarrow> None
           | Some c \<Rightarrow> Some (sg, payload, c)))"

definition validate :: "auth_config \<Rightarrow> string \<Rightarrow> int \<Rightarrow> auth_error + string" where
  "validate cfg tok now =
     (case token_parts tok of
        None \<Rightarrow> Inl Malformed
      | Some (sg, payload, c) \<Rightarrow>
          if sg \<noteq> signature cfg payload then Inl BadSignature
          else if now \<ge> expires_at c then Inl Expired
          else Inr (subject c))"

subsection \<open>Authentication flow (spec 4.4) and Access Guard (spec 4.5)\<close>

definition authentication_flow :: "auth_config \<Rightarrow> database \<Rightarrow> string \<Rightarrow> string \<Rightarrow> usuario option" where
  "authentication_flow cfg db name plaintext =
     (case get_usuario_by_username db name of
        None \<Rightarrow> None
      | Some stored \<Rightarrow>
          if pwd_verify (hasher cfg) plaintext (hashed_password stored) then Some stored
          else None)"

definition bearer_token :: "string \<Rightarrow> string option" where
  "bearer_token header = (if take 7 header = ''Bearer '' then Some (drop 7 header) else None)"

definition access_guard :: "auth_config \<Rightarrow> int \<Rightarrow> database \<Rightarrow> string option \<Rightarrow> failure + usuario" where
  "access_guard cfg now db authorization =
     (case authorization of
        None \<Rightarrow> Inl Unauthenticated
      | Some header \<Rightarrow>
          (case bearer_token header of
             None \<Rightarrow> Inl Unauthenticated
           | Some tok \<Rightarrow>
               (case validate cfg tok now of
                  Inl e \<Rightarrow> Inl Unauthenticated
                | Inr sub \<Rightarrow>
                    (case get_usuario_by_username db sub of
                       None \<Rightarrow> Inl Unauthenticated
                     | Some u \<Rightarrow> Inr u))))"

text \<open>The module that the spec describes, for a configuration.\<close>

definition spec_auth :: "auth_config \<Rightarrow> auth_module" where
  "spec_auth cfg =
     \<lparr>authenticate_user = authentication_flow cfg,
      create_access_token =
        (\<lambda>sub expires_delta now.
           mint cfg \<lparr>subject = sub, issued_at = now, expires_at = now + expires_delta\<rparr>),
      ACCESS_TOKEN_EXPIRE_MINUTES = ttl_minutes cfg,
      get_password_hash = pwd_hash (hasher cfg),
      get_current_active_user = access_guard cfg\<rparr>"

subsection \<open>A fixed configuration for running the definitions\<close>

text \<open>
  A known secret, a lifetime of thirty minutes and toy primitives in place of the
  cryptographic ones (section 9 of the spec: injected fixed secrets and clocks).
\<close>

definition toy_context :: crypt_context where
  "toy_context =
     \<lparr>pwd_hash = (\<lambda>salt plaintext. salt @ ''$'' @ plaintext),
      pwd_verify = (\<lambda>plaintext digest. tl (dropWhile (\<lambda>c. c \<noteq> CHR ''$'') digest) = plaintext)\<rparr>"

definition toy_config :: auth_config where
  "toy_config =
     \<lparr>SECRET_KEY = ''k'', ttl_minutes = 30,
      mac = (\<lambda>key msg. length key + length msg),
      hasher = toy_context\<rparr>"

definition demo_user :: usuario where
  "demo_user = \<lparr>usuario_id = 1, username = ''alice'', hashed_password = ''salt$s3cret''\<rparr>"

definition demo_database :: database where
  "demo_database =
     \<lparr>veiculos =
        [\<lparr>veiculo_id = 1, nome = ''Fusca'', modelo = ''1968'', status = ''DESCONECTADO''\<rparr>,
         \<lparr>veiculo_id = 2, nome = ''Civic'', modelo = ''2020'', status = ''CONECTADO''\<rparr>],
      usuarios = [demo_user]\<rparr>"

declare show_nat.simps [simp del]

section \<open>Vehicle operations\<close>

lemma get_veiculo_absent:
  "sqlite_integer vid \<Longrightarrow> vid \<notin> set (map veiculo_id (veiculos db)) \<Longrightarrow>
     get_veiculo db vid = Inr None"
  by (auto simp: get_veiculo_def find_None_iff)

lemma get_veiculo_present:
  assumes "sqlite_integer vid" and "vid \<in> set (map veiculo_id (veiculos db))"
  shows "\<exists>v. get_veiculo db vid = Inr (Some v) \<and> veiculo_id v = vid"
proof -
  from assms(2) have "find (\<lambda>v. veiculo_id v = vid) (veiculos db) \<noteq> None"
    by (auto simp: find_None_iff)
  then obtain v where v: "find (\<lambda>v. veiculo_id v = vid) (veiculos db) = Some v"
    by blast
  then have "veiculo_id v = vid"
    by (auto simp: find_Some_iff)
  with v assms(1) show ?thesis
    by (simp add: get_veiculo_def)
qed

lemma get_veiculo_overflow: "\<not> sqlite_integer vid \<Longrightarrow> get_veiculo db vid = Inl OverflowError"
  by (simp add: get_veiculo_def)

lemma set_status_length: "length (set_status vid st rows) = length rows"
  by (simp add: set_status_def)

lemma set_status_nth:
  "i < length rows \<Longrightarrow>
     set_status vid st rows ! i =
       (if veiculo_id (rows ! i) = vid then (rows ! i)\<lparr>status := st\<rparr> else rows ! i)"
  by (simp add: set_status_def)

text \<open>
  For an id that the database can hold, \<open>atualizar_status\<close> does what claim C9 says.
  When the id is in the table, the answer is the vehicle carrying the new status,
  and the store it leaves has the same users and the same number of vehicle rows,
  each row keeping its id, \<open>nome\<close> and \<open>modelo\<close>; a row's status is the new one
  exactly when its id is the given one, and a row with another id is unchanged.
  When the id is not in the table the answer is the 404 and the store is the one
  it was.
\<close>

lemma atualizar_status_in_range:
  assumes range: "sqlite_integer vid"
  shows
  "(vid \<notin> set (map veiculo_id (veiculos db)) \<longrightarrow>
      atualizar_status vid st db u = (Inl (HTTPException 404 veiculo_nao_encontrado []), db)) \<and>
   (vid \<in> set (map veiculo_id (veiculos db)) \<longrightarrow>
      (\<exists>v db'. atualizar_status vid st db u = (Inr v, db') \<and>
         veiculo_id v = vid \<and> status v = st \<and>
         usuarios db' = usuarios db \<and>
         length (veiculos db') = length (veiculos db) \<and>
         (\<forall>i < length (veiculos db).
            veiculo_id (veiculos db' ! i) = veiculo_id (veiculos db ! i) \<and>
            nome (veiculos db' ! i) = nome (veiculos db ! i) \<and>
            modelo (veiculos db' ! i) = modelo (veiculos db ! i) \<and>
            status (veiculos db' ! i) =
              (if veiculo_id (veiculos db ! i) = vid then st else status (veiculos db ! i)) \<and>
            (veiculo_id (veiculos db ! i) \<noteq> vid \<longrightarrow> veiculos db' ! i = veiculos db ! i))))"
proof (intro conjI impI)
  assume "vid \<notin> set (map veiculo_id (veiculos db))"
  with range have "get_veiculo db vid = Inr None"
    by (rule get_veiculo_absent)
  then show "atualizar_status vid st db u = (Inl (HTTPException 404 veiculo_nao_encontrado []), db)"
    by (simp add: atualizar_status_def)
next
  assume "vid \<in> set (map veiculo_id (veiculos db))"
  with range obtain v where v: "get_veiculo db vid = Inr (Some v)" and vid: "veiculo_id v = vid"
    using get_veiculo_present by blast
  let ?db' = "db\<lparr>veiculos := set_status vid st (veiculos db)\<rparr>"
  have out: "atualizar_status vid st db u = (Inr (v\<lparr>status := st\<rparr>), ?db')"
    using v by (simp add: atualizar_status_def)
  have rows: "\<forall>i < length (veiculos db).
            veiculo_id (veiculos ?db' ! i) = veiculo_id (veiculos db ! i) \<and>
            nome (veiculos ?db' ! i) = nome (veiculos db ! i) \<and>
            modelo (veiculos ?db' ! i) = modelo (veiculos db ! i) \<and>
            status (veiculos ?db' ! i) =
              (if veiculo_id (veiculos db ! i) = vid then st else status (veiculos db ! i)) \<and>
            (veiculo_id (veiculos db ! i) \<noteq> vid \<longrightarrow> veiculos ?db' ! i = veiculos db ! i)"
    by (simp add: set_status_nth)
  show "\<exists>v db'. atualizar_status vid st db u = (Inr v, db') \<and>
         veiculo_id v = vid \<and> status v = st \<and>
         usuarios db' = usuarios db \<and>
         length (veiculos db') = length (veiculos db) \<and>
         (\<forall>i < length (veiculos db).
            veiculo_id (veiculos db' ! i) = veiculo_id (veiculos db ! i) \<and>
            nome (veiculos db' ! i) = nome (veiculos db ! i) \<and>
            modelo (veiculos db' ! i) = modelo (veiculos db ! i) \<and>
            status (veiculos db' ! i) =
              (if veiculo_id (veiculos db ! i) = vid then st else status (veiculos db ! i)) \<and>
            (veiculo_id (veiculos db ! i) \<noteq> vid \<longrightarrow> veiculos db' ! i = veiculos db ! i))"
    apply (rule exI [of _ "v\<lparr>status := st\<rparr>"])
    apply (rule exI [of _ ?db'])
    using out vid rows by (simp add: set_status_length)
qed

text \<open>
  An id outside the database's integer range is in no table, and the request does
  not end as not found: the lookup raises, for this endpoint and for
  \<open>obter_veiculo\<close> and \<open>excluir_veiculo\<close> alike.  The store is left as it was.
\<close>

lemma atualizar_status_out_of_range:
  "\<not> sqlite_integer vid \<Longrightarrow> atualizar_status vid st db u = (Inl OverflowError, db)"
  by (simp add: atualizar_status_def get_veiculo_overflow)

lemma obter_veiculo_out_of_range:
  "\<not> sqlite_integer vid \<Longrightarrow> obter_veiculo vid db u = (Inl OverflowError, db)"
  by (simp add: obter_veiculo_def get_veiculo_overflow)

lemma excluir_veiculo_out_of_range:
  "\<not> sqlite_integer vid \<Longrightarrow> excluir_veiculo vid db u = (Inl OverflowError, db)"
  by (simp add: excluir_veiculo_def get_veiculo_overflow)

text \<open>
  Claim C9 fails in its second half.  The id \<open>2 ^ 63\<close> is not in the table, and
  updating its status is answered with the uncaught \<open>OverflowError\<close>, not with the
  404 that the endpoint raises for an id it does not find.
\<close>

theorem atualizar_status_overflow:
  "9223372036854775808 \<notin> set (map veiculo_id (veiculos demo_database)) \<and>
   atualizar_status 9223372036854775808 ''EM USO'' demo_database demo_user =
     (Inl OverflowError, demo_database) \<and>
   atualizar_status 7 ''EM USO'' demo_database demo_user =
     (Inl (HTTPException 404 veiculo_nao_encontrado []), demo_database)"
  by (simp add: demo_database_def atualizar_status_def get_veiculo_def sqlite_integer_def)

text \<open>
  The function of the same purpose in \<^verbatim>\<open>app/crud.py\<close> writes the same store and
  signals a missing id by returning nothing.
\<close>

lemma update_veiculo_status_store:
  "snd (update_veiculo_status db vid st) = snd (atualizar_status vid st db u)"
  by (simp add: update_veiculo_status_def atualizar_status_def split: option.splits sum.splits)

lemma update_veiculo_status_absent:
  "sqlite_integer vid \<Longrightarrow> vid \<notin> set (map veiculo_id (veiculos db)) \<Longrightarrow>
     update_veiculo_status db vid st = (Inr None, db)"
  by (simp add: update_veiculo_status_def get_veiculo_absent)

text \<open>
  Claim C10.  A creation request whose body has \<open>nome\<close> and \<open>modelo\<close> and no
  \<open>status\<close> key appends one vehicle to the table and answers with it, and that
  vehicle's status is \<^verbatim>\<open>"DESCONECTADO"\<close>.
\<close>

theorem criar_veiculo_default_status:
  "body ''status'' = None \<Longrightarrow> body ''nome'' = Some n \<Longrightarrow> body ''modelo'' = Some m \<Longrightarrow>
     \<exists>v. endpoint (CriarVeiculo body) db u =
            (Inr (VeiculoReply v), db\<lparr>veiculos := veiculos db @ [v]\<rparr>) \<and>
         status v = ''DESCONECTADO'' \<and> nome v = n \<and> modelo v = m"
  by (simp add: VeiculoCreate_def criar_veiculo_def respond_def Let_def)

theorem criar_veiculo_default_status_witness:
  "\<exists>v. endpoint (CriarVeiculo [''nome'' \<mapsto> ''Uno'', ''modelo'' \<mapsto> ''Fiat'']) demo_database demo_user =
          (Inr (VeiculoReply v), demo_database\<lparr>veiculos := veiculos demo_database @ [v]\<rparr>) \<and>
        v = \<lparr>veiculo_id = 3, nome = ''Uno'', modelo = ''Fiat'', status = ''DESCONECTADO''\<rparr>"
proof -
  let ?body = "[''nome'' \<mapsto> ''Uno'', ''modelo'' \<mapsto> ''Fiat'']"
  have b: "?body ''status'' = None" "?body ''nome'' = Some ''Uno''" "?body ''modelo'' = Some ''Fiat''"
    by simp_all
  have i: "next_id (map veiculo_id (veiculos demo_database)) = 3"
    by (simp add: next_id_def demo_database_def)
  from criar_veiculo_default_status [OF b, of demo_database demo_user] i show ?thesis
    by (auto simp: VeiculoCreate_def criar_veiculo_def respond_def Let_def)
qed

text \<open>\<^verbatim>\<open>crud.create_veiculo\<close> builds and stores the same row.\<close>

lemma create_veiculo_same:
  "criar_veiculo v db u = (Inr (fst (create_veiculo db v)), snd (create_veiculo db v))"
  by (simp add: criar_veiculo_def create_veiculo_def Let_def)

section \<open>The token round trip\<close>

lemma digit_val_digit_char: "d < 10 \<Longrightarrow> digit_val (digit_char d) = Some d"
  by (simp add: digit_val_def digit_char_def)

lemma digit_char_not_dot: "d < 10 \<Longrightarrow> digit_char d \<noteq> CHR ''.''"
  using digit_val_digit_char [of d] by (auto simp: digit_val_def)

lemma digit_char_not_minus: "d < 10 \<Longrightarrow> digit_char d \<noteq> CHR ''-''"
  using digit_val_digit_char [of d] by (auto simp: digit_val_def)

lemma read_digits_append:
  "read_digits acc (xs @ ys) =
     (case read_digits acc xs of None \<Rightarrow> None | Some a \<Rightarrow> read_digits a ys)"
  by (induction xs arbitrary: acc) (auto split: option.splits)

lemma read_digits_show_nat: "read_digits 0 (show_nat n) = Some n"
proof (induction n rule: show_nat.induct)
  case (1 n)
  show ?case
  proof (cases "n < 10")
    case True
    then show ?thesis
      by (simp add: show_nat.simps [of n] digit_val_digit_char)
  next
    case False
    with 1 have "read_digits 0 (show_nat (n div 10)) = Some (n div 10)"
      by simp
    with False show ?thesis
      by (simp add: show_nat.simps [of n] read_digits_append digit_val_digit_char)
  qed
qed

lemma show_nat_not_Nil: "show_nat n \<noteq> []"
  by (subst show_nat.simps) simp

lemma parse_nat_show_nat: "parse_nat (show_nat n) = Some n"
  by (simp add: parse_nat_def show_nat_not_Nil read_digits_show_nat)

lemma show_nat_digits: "c \<in> set (show_nat n) \<Longrightarrow> \<exists>d<10. c = digit_char d"
proof (induction n rule: show_nat.induct)
  case (1 n)
  show ?case
  proof (cases "n < 10")
    case True
    with "1.prems" show ?thesis
      by (auto simp: show_nat.simps [of n])
  next
    case False
    with "1.prems" have "c \<in> set (show_nat (n div 10)) \<or> c = digit_char (n mod 10)"
      by (auto simp: show_nat.simps [of n])
    then show ?thesis
    proof
      assume "c \<in> set (show_nat (n div 10))"
      with False "1.IH" show ?thesis by simp
    next
      assume "c = digit_char (n mod 10)"
      moreover have "n mod 10 < 10" by simp
      ultimately show ?thesis by blast
    qed
  qed
qed

lemma show_nat_no_dot: "CHR ''.'' \<notin> set (show_nat n)"
proof
  assume "CHR ''.'' \<in> set (show_nat n)"
  then obtain d where "d < 10" and "CHR ''.'' = digit_char d"
    using show_nat_digits by blast
  then show False
    using digit_char_not_dot [of d] by simp
qed

lemma show_nat_hd_not_minus: "hd (show_nat n) \<noteq> CHR ''-''"
proof -
  have "hd (show_nat n) \<in> set (show_nat n)"
    by (simp add: show_nat_not_Nil)
  then obtain d where "d < 10" and "hd (show_nat n) = digit_char d"
    using show_nat_digits by blast
  then show ?thesis
    using digit_char_not_minus [of d] by simp
qed

lemma show_int_no_dot: "CHR ''.'' \<notin> set (show_int i)"
  by (simp add: show_int_def show_nat_no_dot)

lemma parse_int_show_int: "parse_int (show_int i) = Some i"
proof (cases "i < 0")
  case True
  then show ?thesis
    by (simp add: show_int_def parse_int_def parse_nat_show_nat)
next
  case False
  obtain c r where cr: "show_nat (nat i) = c # r"
    using show_nat_not_Nil [of "nat i"] by (cases "show_nat (nat i)") auto
  then have "c \<noteq> CHR ''-''"
    using show_nat_hd_not_minus [of "nat i"] by simp
  with False cr show ?thesis
    using parse_nat_show_nat [of "nat i"] by (simp add: show_int_def parse_int_def)
qed

lemma split_dot_append:
  "CHR ''.'' \<notin> set xs \<Longrightarrow> split_dot (xs @ CHR ''.'' # ys) = Some (xs, ys)"
  by (induction xs) (auto simp: split_dot_def)

lemma parse_claims_serialize_claims: "parse_claims (serialize_claims c) = Some c"
  by (simp add: parse_claims_def serialize_claims_def split_dot_append show_int_no_dot
      parse_int_show_int)

lemma token_parts_mint:
  "token_parts (mint cfg c) = Some (signature cfg (serialize_claims c), serialize_claims c, c)"
  by (simp add: token_parts_def mint_def Let_def signature_def split_dot_append show_nat_no_dot
      parse_claims_serialize_claims)

lemma validate_mint:
  "validate cfg (mint cfg c) now = (if now \<ge> expires_at c then Inl Expired else Inr (subject c))"
  by (simp add: validate_def token_parts_mint)

lemma validate_Inr_iff:
  "validate cfg tok now = Inr s \<longleftrightarrow>
     (\<exists>sg payload c. token_parts tok = Some (sg, payload, c) \<and> sg = signature cfg payload \<and>
        now < expires_at c \<and> s = subject c)"
  by (auto simp: validate_def split: option.splits)

text \<open>
  Claim C2.  With a positive configured lifetime, the token issued for a subject at
  a time validates at that same time and yields that subject, whatever the subject
  string, the time, the secret and the MAC.
\<close>

theorem issue_validate_roundtrip:
  "0 < ttl_minutes cfg \<Longrightarrow> validate cfg (issue cfg s t0) t0 = Inr s"
  by (simp add: issue_def validate_mint TTL_def timedelta_minutes_def)

theorem issue_validate_roundtrip_witness:
  "0 < ttl_minutes toy_config \<and>
   issue toy_config ''alice'' 1000 = ''16.1000.2800.alice'' \<and>
   validate toy_config ''16.1000.2800.alice'' 1000 = Inr ''alice''"
proof -
  have ttl: "0 < ttl_minutes toy_config"
    by (simp add: toy_config_def)
  have tok: "issue toy_config ''alice'' 1000 = ''16.1000.2800.alice''"
    by code_simp
  from issue_validate_roundtrip [OF ttl, of "''alice''" 1000] ttl tok show ?thesis
    by simp
qed

text \<open>
  Claim C3.  The token issued at \<open>t0\<close> is \<open>Expired\<close> at \<open>t0 + TTL\<close> and valid at
  \<open>t0 + TTL - 1\<close>; and any string is accepted at a time exactly when it splits into
  a signature and a payload carrying claims, the signature is the one the signing
  secret gives for that payload, and the time is strictly before \<open>expires_at\<close>.
\<close>

theorem token_expiry_boundary:
  "validate cfg (issue cfg s t0) (t0 + TTL cfg) = Inl Expired \<and>
   validate cfg (issue cfg s t0) (t0 + TTL cfg - 1) = Inr s \<and>
   ((\<exists>sub. validate cfg tok now = Inr sub) \<longleftrightarrow>
      (\<exists>sg payload c. token_parts tok = Some (sg, payload, c) \<and>
         sg = signature cfg payload \<and> now < expires_at c))"
  by (auto simp: issue_def validate_mint validate_Inr_iff)

theorem token_expiry_boundary_witness:
  "validate toy_config (issue toy_config ''alice'' 1000) (1000 + TTL toy_config) = Inl Expired \<and>
   validate toy_config (issue toy_config ''alice'' 1000) (1000 + TTL toy_config - 1) = Inr ''alice'' \<and>
   TTL toy_config = 1800 \<and>
   (\<exists>sg payload c. token_parts ''16.1000.2800.alice'' = Some (sg, payload, c) \<and>
      sg = signature toy_config payload \<and> 2799 < expires_at c)"
proof -
  have v: "validate toy_config ''16.1000.2800.alice'' 2799 = Inr ''alice''"
    by code_simp
  have t: "TTL toy_config = 1800"
    by (simp add: TTL_def toy_config_def timedelta_minutes_def)
  from token_expiry_boundary [of toy_config "''alice''" 1000 "''16.1000.2800.alice''" 2799] v t
  show ?thesis
    by simp
qed

section \<open>The access guard in front of the vehicle endpoints\<close>

text \<open>
  The dependency is resolved first, for every implementation of the guard: a
  rejection is the answer and the store stays as it was, and the endpoint runs on
  the user the guard returned.
\<close>

lemma protected_request_Depends:
  "(\<forall>e. get_current_active_user A now db authorization = Inl e \<longrightarrow>
        protected_request A now db authorization op = (Inl e, db)) \<and>
   (\<forall>u. get_current_active_user A now db authorization = Inr u \<longrightarrow>
        protected_request A now db authorization op = endpoint op db u)"
  by (simp add: protected_request_def)

text \<open>
  What the guard of the spec admits: a header \<^verbatim>\<open>Bearer <token>\<close> whose token
  validates now and whose subject resolves in the store, and nothing else.
\<close>

lemma bearer_token_Some: "bearer_token header = Some tok \<longleftrightarrow> header = ''Bearer '' @ tok"
proof
  assume "bearer_token header = Some tok"
  then have "take 7 header = ''Bearer ''" and "drop 7 header = tok"
    by (simp_all only: bearer_token_def split: if_splits) simp_all
  then show "header = ''Bearer '' @ tok"
    using append_take_drop_id [of 7 header] by (simp only:)
next
  assume "header = ''Bearer '' @ tok"
  then show "bearer_token header = Some tok"
    by (simp add: bearer_token_def)
qed

lemma get_usuario_by_username_Some:
  "get_usuario_by_username db name = Some u \<Longrightarrow> username u = name"
  by (auto simp: get_usuario_by_username_def find_Some_iff)

lemma access_guard_Bearer:
  "access_guard cfg now db (Some (''Bearer '' @ tok)) =
     (case validate cfg tok now of
        Inl e \<Rightarrow> Inl Unauthenticated
      | Inr sub \<Rightarrow>
          (case get_usuario_by_username db sub of
             None \<Rightarrow> Inl Unauthenticated
           | Some u \<Rightarrow> Inr u))"
proof -
  have "bearer_token (''Bearer '' @ tok) = Some tok"
    by (simp only: bearer_token_Some)
  then show ?thesis
    unfolding access_guard_def by (simp only: option.case)
qed

lemma access_guard_admits:
  "access_guard cfg now db authorization = Inr u \<longleftrightarrow>
     (\<exists>tok. authorization = Some (''Bearer '' @ tok) \<and>
        validate cfg tok now = Inr (username u) \<and>
        get_usuario_by_username db (username u) = Some u)"
proof
  assume admitted: "access_guard cfg now db authorization = Inr u"
  then obtain header where header: "authorization = Some header"
    by (cases authorization) (simp_all add: access_guard_def)
  with admitted obtain tok where tok: "bearer_token header = Some tok"
    by (cases "bearer_token header") (simp_all add: access_guard_def)
  then have h: "header = ''Bearer '' @ tok"
    by (simp only: bearer_token_Some)
  from admitted header h have *: "(case validate cfg tok now of
        Inl e \<Rightarrow> Inl Unauthenticated
      | Inr sub \<Rightarrow>
          (case get_usuario_by_username db sub of
             None \<Rightarrow> Inl Unauthenticated
           | Some u \<Rightarrow> Inr u)) = Inr u"
    by (simp only: access_guard_Bearer)
  then obtain sub where sub: "validate cfg tok now = Inr sub"
    by (cases "validate cfg tok now") simp_all
  with * have found: "get_usuario_by_username db sub = Some u"
    by (cases "get_usuario_by_username db sub") simp_all
  then have "username u = sub"
    by (rule get_usuario_by_username_Some)
  with header h sub found show "\<exists>tok. authorization = Some (''Bearer '' @ tok) \<and>
        validate cfg tok now = Inr (username u) \<and>
        get_usuario_by_username db (username u) = Some u"
    by blast
next
  assume "\<exists>tok. authorization = Some (''Bearer '' @ tok) \<and>
        validate cfg tok now = Inr (username u) \<and>
        get_usuario_by_username db (username u) = Some u"
  then obtain tok where "authorization = Some (''Bearer '' @ tok)"
    and "validate cfg tok now = Inr (username u)"
    and "get_usuario_by_username db (username u) = Some u"
    by blast
  then show "access_guard cfg now db authorization = Inr u"
    by (simp only: access_guard_Bearer sum.case option.case)
qed

lemma access_guard_rejection:
  "access_guard cfg now db authorization = Inl e \<Longrightarrow> e = Unauthenticated"
  by (simp add: access_guard_def split: option.splits sum.splits)

text \<open>
  Claim C1.  With the access guard of the spec in front of the five vehicle
  operations: a request whose header is \<^verbatim>\<open>Bearer <token>\<close>, whose token
  validates at the time of the request and whose subject resolves to a user of
  the store is the endpoint run on that user; every other request is answered
  \<open>Unauthenticated\<close> and leaves the store as it was, whatever the operation; and
  a request that is answered with a result, or that leaves another store, carried
  such a token and was the endpoint run on the resolved user.
\<close>

theorem protected_request_guarded:
  "(\<forall>u. (\<exists>tok. authorization = Some (''Bearer '' @ tok) \<and>
              validate cfg tok now = Inr (username u) \<and>
              get_usuario_by_username db (username u) = Some u) \<longrightarrow>
        protected_request (spec_auth cfg) now db authorization op = endpoint op db u) \<and>
   ((\<nexists>u tok. authorization = Some (''Bearer '' @ tok) \<and>
              validate cfg tok now = Inr (username u) \<and>
              get_usuario_by_username db (username u) = Some u) \<longrightarrow>
        protected_request (spec_auth cfg) now db authorization op = (Inl Unauthenticated, db)) \<and>
   ((\<exists>r. fst (protected_request (spec_auth cfg) now db authorization op) = Inr r) \<or>
    snd (protected_request (spec_auth cfg) now db authorization op) \<noteq> db \<longrightarrow>
      (\<exists>u tok. authorization = Some (''Bearer '' @ tok) \<and>
              validate cfg tok now = Inr (username u) \<and>
              get_usuario_by_username db (username u) = Some u \<and>
              protected_request (spec_auth cfg) now db authorization op = endpoint op db u))"
proof -
  let ?adm = "\<lambda>u. \<exists>tok. authorization = Some (''Bearer '' @ tok) \<and>
              validate cfg tok now = Inr (username u) \<and>
              get_usuario_by_username db (username u) = Some u"
  let ?req = "protected_request (spec_auth cfg) now db authorization op"
  have guard: "get_current_active_user (spec_auth cfg) = access_guard cfg"
    by (simp add: spec_auth_def)
  have adm: "\<And>u. ?adm u \<longleftrightarrow> access_guard cfg now db authorization = Inr u"
    by (simp only: access_guard_admits)
  have run: "\<And>u. ?adm u \<Longrightarrow> ?req = endpoint op db u"
    using protected_request_Depends [of "spec_auth cfg" now db authorization op]
    by (simp only: guard adm)
  have rejected: "?req = (Inl Unauthenticated, db)" if none: "\<And>u. \<not> ?adm u"
  proof (cases "access_guard cfg now db authorization")
    case (Inl e)
    then have "e = Unauthenticated"
      by (rule access_guard_rejection)
    with Inl show ?thesis
      using protected_request_Depends [of "spec_auth cfg" now db authorization op]
      by (simp only: guard)
  next
    case (Inr u)
    then have "?adm u"
      by (simp only: adm)
    with none show ?thesis
      by blast
  qed
  have only: "\<exists>u. ?adm u \<and> ?req = endpoint op db u"
    if "(\<exists>r. fst ?req = Inr r) \<or> snd ?req \<noteq> db"
  proof (rule ccontr)
    assume no: "\<not> (\<exists>u. ?adm u \<and> ?req = endpoint op db u)"
    have "\<And>u. \<not> ?adm u"
    proof
      fix u
      assume "?adm u"
      then have "?adm u \<and> ?req = endpoint op db u"
        using run by blast
      with no show False
        by blast
    qed
    then have "?req = (Inl Unauthenticated, db)"
      by (rule rejected)
    with that show False
      by simp
  qed
  show ?thesis
  proof (intro conjI allI impI)
    fix u
    assume "?adm u"
    then show "?req = endpoint op db u"
      by (rule run)
  next
    assume "\<nexists>u tok. authorization = Some (''Bearer '' @ tok) \<and>
              validate cfg tok now = Inr (username u) \<and>
              get_usuario_by_username db (username u) = Some u"
    then have "\<And>u. \<not> ?adm u"
      by blast
    then show "?req = (Inl Unauthenticated, db)"
      by (rule rejected)
  next
    assume "(\<exists>r. fst ?req = Inr r) \<or> snd ?req \<noteq> db"
    then have "\<exists>u. ?adm u \<and> ?req = endpoint op db u"
      by (rule only)
    then show "\<exists>u tok. authorization = Some (''Bearer '' @ tok) \<and>
              validate cfg tok now = Inr (username u) \<and>
              get_usuario_by_username db (username u) = Some u \<and>
              ?req = endpoint op db u"
      by blast
  qed
qed

theorem protected_request_guarded_witness:
  "protected_request (spec_auth toy_config) 1000 demo_database None (ExcluirVeiculo 1) =
     (Inl Unauthenticated, demo_database) \<and>
   protected_request (spec_auth toy_config) 3000 demo_database
       (Some ''Bearer 16.1000.2800.alice'') (ExcluirVeiculo 1) =
     (Inl Unauthenticated, demo_database) \<and>
   validate toy_config ''16.1000.2800.alice'' 1000 = Inr (username demo_user) \<and>
   get_usuario_by_username demo_database (username demo_user) = Some demo_user \<and>
   protected_request (spec_auth toy_config) 1000 demo_database
       (Some ''Bearer 16.1000.2800.alice'') (ExcluirVeiculo 1) =
     endpoint (ExcluirVeiculo 1) demo_database demo_user"
proof -
  let ?h = "Some ''Bearer 16.1000.2800.alice''"
  let ?adm = "\<lambda>now authorization u. \<exists>tok. authorization = Some (''Bearer '' @ tok) \<and>
              validate toy_config tok now = Inr (username u) \<and>
              get_usuario_by_username demo_database (username u) = Some u"
  have g2: "access_guard toy_config 3000 demo_database ?h = Inl Unauthenticated"
    by code_simp
  have n1: "\<nexists>u tok. None = Some (''Bearer '' @ tok) \<and>
              validate toy_config tok 1000 = Inr (username u) \<and>
              get_usuario_by_username demo_database (username u) = Some u"
    by simp
  have "\<And>u. \<not> ?adm 3000 ?h u"
    using g2 by (simp only: access_guard_admits [symmetric]) simp
  then have n2: "\<nexists>u tok. ?h = Some (''Bearer '' @ tok) \<and>
              validate toy_config tok 3000 = Inr (username u) \<and>
              get_usuario_by_username demo_database (username u) = Some u"
    by blast
  have v: "validate toy_config ''16.1000.2800.alice'' 1000 = Inr (username demo_user)"
    by code_simp
  have f: "get_usuario_by_username demo_database (username demo_user) = Some demo_user"
    by code_simp
  have h: "?h = Some (''Bearer '' @ ''16.1000.2800.alice'')"
    by simp
  have a3: "\<exists>tok. ?h = Some (''Bearer '' @ tok) \<and>
              validate toy_config tok 1000 = Inr (username demo_user) \<and>
              get_usuario_by_username demo_database (username demo_user) = Some demo_user"
    using h v f by blast
  have r1: "protected_request (spec_auth toy_config) 1000 demo_database None (ExcluirVeiculo 1) =
      (Inl Unauthenticated, demo_database)"
    using protected_request_guarded [of None toy_config 1000 demo_database "ExcluirVeiculo 1"] n1
    by blast
  have r2: "protected_request (spec_auth toy_config) 3000 demo_database ?h (ExcluirVeiculo 1) =
      (Inl Unauthenticated, demo_database)"
    using protected_request_guarded [of ?h toy_config 3000 demo_database "ExcluirVeiculo 1"] n2
    by blast
  have r3: "protected_request (spec_auth toy_config) 1000 demo_database ?h (ExcluirVeiculo 1) =
      endpoint (ExcluirVeiculo 1) demo_database demo_user"
    using protected_request_guarded [of ?h toy_config 1000 demo_database "ExcluirVeiculo 1"] a3
    by blast
  from r1 r2 v f r3 show ?thesis
    by (intro conjI)
qed

section \<open>Login\<close>

text \<open>
  Claim C4.  Any two login attempts that \<open>authenticate_user\<close> turns down get the
  same answer: the \<^verbatim>\<open>HTTPException\<close> with status 401, the one fixed message and
  the header \<^verbatim>\<open>WWW-Authenticate: Bearer\<close>.  Under the login check of the spec an
  unknown username and a wrong password for a known one are two such attempts
  (\<open>authentication_flow_rejects\<close> below).
\<close>

theorem login_rejections_identical:
  "authenticate_user A db u1 p1 = None \<Longrightarrow> authenticate_user A db u2 p2 = None \<Longrightarrow>
     login_for_access_token A now db \<lparr>form_username = u1, form_password = p1\<rparr> =
       Inl (HTTPException 401 usuario_ou_senha_incorretos [(''WWW-Authenticate'', ''Bearer'')]) \<and>
     login_for_access_token A now db \<lparr>form_username = u2, form_password = p2\<rparr> =
       login_for_access_token A now db \<lparr>form_username = u1, form_password = p1\<rparr>"
  by (simp add: login_for_access_token_def)

theorem login_rejections_identical_witness:
  "get_usuario_by_username demo_database ''bob'' = None \<and>
   get_usuario_by_username demo_database ''alice'' = Some demo_user \<and>
   login_for_access_token (spec_auth toy_config) 1000 demo_database
       \<lparr>form_username = ''bob'', form_password = ''s3cret''\<rparr> =
     Inl (HTTPException 401 usuario_ou_senha_incorretos [(''WWW-Authenticate'', ''Bearer'')]) \<and>
   login_for_access_token (spec_auth toy_config) 1000 demo_database
       \<lparr>form_username = ''alice'', form_password = ''wrong''\<rparr> =
     login_for_access_token (spec_auth toy_config) 1000 demo_database
       \<lparr>form_username = ''bob'', form_password = ''s3cret''\<rparr>"
proof -
  have a: "get_usuario_by_username demo_database ''bob'' = None"
    by (simp add: get_usuario_by_username_def demo_database_def demo_user_def)
  have b: "get_usuario_by_username demo_database ''alice'' = Some demo_user"
    by (simp add: get_usuario_by_username_def demo_database_def demo_user_def)
  have c: "authenticate_user (spec_auth toy_config) demo_database ''bob'' ''s3cret'' = None"
    using a by (simp add: spec_auth_def authentication_flow_def)
  have d: "authenticate_user (spec_auth toy_config) demo_database ''alice'' ''wrong'' = None"
    using b by (simp add: spec_auth_def authentication_flow_def toy_config_def toy_context_def demo_user_def)
  from login_rejections_identical [OF c d, of 1000] a b show ?thesis
    by simp
qed

text \<open>The login check of the spec turns down both kinds of attempt.\<close>

lemma authentication_flow_rejects:
  "get_usuario_by_username db name = None \<Longrightarrow> authentication_flow cfg db name pw = None"
  "get_usuario_by_username db name = Some stored \<Longrightarrow>
     \<not> pwd_verify (hasher cfg) pw (hashed_password stored) \<Longrightarrow>
     authentication_flow cfg db name pw = None"
  by (simp_all add: authentication_flow_def)

text \<open>
  Claim C6.  When \<open>authenticate_user\<close> returns a user, login answers with the object
  of exactly the two fields \<open>access_token\<close>, the token made for that user's name and
  the configured lifetime, and \<open>token_type\<close>, the string \<^verbatim>\<open>"bearer"\<close>; when it
  returns nothing, login answers 401 with the header \<^verbatim>\<open>WWW-Authenticate: Bearer\<close>;
  and every answer is one of the two.
\<close>

theorem login_response:
  "(\<forall>user. authenticate_user A db (form_username f) (form_password f) = Some user \<longrightarrow>
      login_for_access_token A now db f =
        Inr [(''access_token'',
              create_access_token A (username user)
                (timedelta_minutes (ACCESS_TOKEN_EXPIRE_MINUTES A)) now),
             (''token_type'', ''bearer'')]) \<and>
   (authenticate_user A db (form_username f) (form_password f) = None \<longrightarrow>
      login_for_access_token A now db f =
        Inl (HTTPException 401 usuario_ou_senha_incorretos [(''WWW-Authenticate'', ''Bearer'')])) \<and>
   ((\<exists>tok. login_for_access_token A now db f =
             Inr [(''access_token'', tok), (''token_type'', ''bearer'')]) \<or>
    (\<exists>detail. login_for_access_token A now db f =
             Inl (HTTPException 401 detail [(''WWW-Authenticate'', ''Bearer'')])))"
  by (cases "authenticate_user A db (form_username f) (form_password f)")
     (simp_all add: login_for_access_token_def Let_def)

theorem login_response_witness:
  "login_for_access_token (spec_auth toy_config) 1000 demo_database
       \<lparr>form_username = ''alice'', form_password = ''s3cret''\<rparr> =
     Inr [(''access_token'', ''16.1000.2800.alice''), (''token_type'', ''bearer'')] \<and>
   login_for_access_token (spec_auth toy_config) 1000 demo_database
       \<lparr>form_username = ''alice'', form_password = ''s3cre''\<rparr> =
     Inl (HTTPException 401 usuario_ou_senha_incorretos [(''WWW-Authenticate'', ''Bearer'')])"
proof -
  let ?A = "spec_auth toy_config"
  have ok: "authenticate_user ?A demo_database ''alice'' ''s3cret'' = Some demo_user"
    by code_simp
  have no: "authenticate_user ?A demo_database ''alice'' ''s3cre'' = None"
    by code_simp
  have tok: "create_access_token ?A (username demo_user)
      (timedelta_minutes (ACCESS_TOKEN_EXPIRE_MINUTES ?A)) 1000 = ''16.1000.2800.alice''"
    by code_simp
  from login_response [of ?A demo_database "\<lparr>form_username = ''alice'', form_password = ''s3cret''\<rparr>" 1000]
    login_response [of ?A demo_database "\<lparr>form_username = ''alice'', form_password = ''s3cre''\<rparr>" 1000]
    ok no tok
  show ?thesis by simp
qed


section \<open>Registration and the uniqueness of usernames\<close>

lemma next_id_fresh: "next_id ids \<notin> set ids"
proof (cases "ids = []")
  case True
  then show ?thesis by simp
next
  case False
  show ?thesis
  proof
    assume "next_id ids \<in> set ids"
    then have "next_id ids \<le> Max (set ids)"
      by simp
    with False show False
      by (simp add: next_id_def)
  qed
qed

lemma add_usuario_new:
  "name \<notin> set (map username (usuarios db)) \<Longrightarrow>
     add_usuario db name digest =
       (Inr \<lparr>usuario_id = next_id (map usuario_id (usuarios db)), username = name,
             hashed_password = digest\<rparr>,
        db\<lparr>usuarios := usuarios db @
           [\<lparr>usuario_id = next_id (map usuario_id (usuarios db)), username = name,
             hashed_password = digest\<rparr>]\<rparr>)"
  by (simp add: add_usuario_def Let_def)

lemma add_usuario_taken:
  "name \<in> set (map username (usuarios db)) \<Longrightarrow> add_usuario db name digest = (Inl IntegrityError, db)"
  by (simp add: add_usuario_def)

text \<open>
  Claim C7.  Registering a username that is not in the table appends one row whose
  \<open>hashed_password\<close> is the hasher's digest of the password, under an id no row
  had, and answers with the username and that id only; registering a username that
  is in the table fails on the unique index and leaves the store as it was.  The
  answer is the same whatever the password, the salt and the hasher are: it
  carries neither the plaintext nor the digest.
\<close>

theorem criar_usuario_response:
  "(create_username u \<notin> set (map username (usuarios db)) \<longrightarrow>
      (\<exists>row. criar_usuario A salt db u =
                (Inr \<lparr>schema_username = create_username u, schema_id = usuario_id row\<rparr>,
                 db\<lparr>usuarios := usuarios db @ [row]\<rparr>) \<and>
             username row = create_username u \<and>
             hashed_password row = get_password_hash A salt (create_password u) \<and>
             usuario_id row \<notin> set (map usuario_id (usuarios db)))) \<and>
   (create_username u \<in> set (map username (usuarios db)) \<longrightarrow>
      criar_usuario A salt db u = (Inl IntegrityError, db)) \<and>
   fst (criar_usuario A salt db u) =
     fst (criar_usuario A' salt' db \<lparr>create_username = create_username u, create_password = pw'\<rparr>)"
proof (intro conjI impI)
  assume new: "create_username u \<notin> set (map username (usuarios db))"
  let ?row = "\<lparr>usuario_id = next_id (map usuario_id (usuarios db)),
               username = create_username u,
               hashed_password = get_password_hash A salt (create_password u)\<rparr>"
  have "criar_usuario A salt db u =
          (Inr \<lparr>schema_username = create_username u, schema_id = usuario_id ?row\<rparr>,
           db\<lparr>usuarios := usuarios db @ [?row]\<rparr>)"
    using new by (simp add: criar_usuario_def add_usuario_new Usuario_def)
  moreover have "usuario_id ?row \<notin> set (map usuario_id (usuarios db))"
    using next_id_fresh [of "map usuario_id (usuarios db)"] by simp
  ultimately show "\<exists>row. criar_usuario A salt db u =
                (Inr \<lparr>schema_username = create_username u, schema_id = usuario_id row\<rparr>,
                 db\<lparr>usuarios := usuarios db @ [row]\<rparr>) \<and>
             username row = create_username u \<and>
             hashed_password row = get_password_hash A salt (create_password u) \<and>
             usuario_id row \<notin> set (map usuario_id (usuarios db))"
    by (intro exI [of _ ?row]) simp
next
  assume "create_username u \<in> set (map username (usuarios db))"
  then show "criar_usuario A salt db u = (Inl IntegrityError, db)"
    by (simp add: criar_usuario_def add_usuario_taken)
next
  show "fst (criar_usuario A salt db u) =
     fst (criar_usuario A' salt' db \<lparr>create_username = create_username u, create_password = pw'\<rparr>)"
    by (simp add: criar_usuario_def add_usuario_def Usuario_def Let_def)
qed

theorem criar_usuario_response_witness:
  "criar_usuario (spec_auth toy_config) ''na'' demo_database
       \<lparr>create_username = ''bob'', create_password = ''pw''\<rparr> =
     (Inr \<lparr>schema_username = ''bob'', schema_id = 2\<rparr>,
      demo_database\<lparr>usuarios := usuarios demo_database @
         [\<lparr>usuario_id = 2, username = ''bob'', hashed_password = ''na$pw''\<rparr>]\<rparr>) \<and>
   criar_usuario (spec_auth toy_config) ''na'' demo_database
       \<lparr>create_username = ''alice'', create_password = ''pw''\<rparr> =
     (Inl IntegrityError, demo_database)"
proof -
  let ?A = "spec_auth toy_config"
  have names: "map username (usuarios demo_database) = [''alice'']"
    by (simp add: demo_database_def demo_user_def)
  have taken: "create_username \<lparr>create_username = ''alice'', create_password = ''pw''\<rparr>
      \<in> set (map username (usuarios demo_database))"
    by (simp add: names)
  have fresh: "create_username \<lparr>create_username = ''bob'', create_password = ''pw''\<rparr>
      \<notin> set (map username (usuarios demo_database))"
    by (simp add: names)
  have r2: "criar_usuario ?A ''na'' demo_database
       \<lparr>create_username = ''alice'', create_password = ''pw''\<rparr> = (Inl IntegrityError, demo_database)"
    using criar_usuario_response [of "\<lparr>create_username = ''alice'', create_password = ''pw''\<rparr>"
        demo_database ?A "''na''"] taken
    by blast
  have ids: "next_id (map usuario_id (usuarios demo_database)) = 2"
    by (simp add: next_id_def demo_database_def demo_user_def)
  have r1: "criar_usuario ?A ''na'' demo_database
       \<lparr>create_username = ''bob'', create_password = ''pw''\<rparr> =
     (Inr \<lparr>schema_username = ''bob'', schema_id = 2\<rparr>,
      demo_database\<lparr>usuarios := usuarios demo_database @
         [\<lparr>usuario_id = 2, username = ''bob'', hashed_password = ''na$pw''\<rparr>]\<rparr>)"
    using fresh ids
    by (simp add: criar_usuario_def add_usuario_new Usuario_def spec_auth_def toy_config_def
        toy_context_def)
  from r1 r2 show ?thesis
    by (intro conjI)
qed

lemma add_usuario_distinct:
  "distinct (map username (usuarios db)) \<Longrightarrow>
     distinct (map username (usuarios (snd (add_usuario db name digest))))"
  by (simp add: add_usuario_def Let_def)

lemma criar_usuario_store:
  "snd (criar_usuario A salt db u) =
     snd (add_usuario db (create_username u) (get_password_hash A salt (create_password u)))"
  by (simp add: criar_usuario_def Let_def split: prod.splits sum.splits)

lemma delete_usuario_distinct:
  "distinct (map username (usuarios db)) \<Longrightarrow>
     distinct (map username (usuarios (snd (delete_usuario db uid))))"
  by (simp add: delete_usuario_def distinct_map_filter split: option.splits)

lemma endpoint_usuarios: "usuarios (snd (endpoint op db u)) = usuarios db"
  by (cases op)
     (simp_all add: respond_def listar_veiculos_def criar_veiculo_def obter_veiculo_def
        atualizar_status_def excluir_veiculo_def Let_def split: option.splits sum.splits)

lemma protected_request_usuarios:
  "usuarios (snd (protected_request A now db authorization op)) = usuarios db"
  by (simp add: protected_request_def endpoint_usuarios split: sum.splits)

lemma manage_users_distinct:
  "distinct (map username (usuarios db)) \<Longrightarrow>
     distinct (map username (usuarios (manage_users ctx salt db act au ap)))"
  by (cases act)
     (simp_all add: manage_users_def create_usuario_def add_usuario_distinct
        delete_usuario_distinct Let_def split: option.splits)

lemma step_distinct:
  "distinct (map username (usuarios db)) \<Longrightarrow>
     distinct (map username (usuarios (step A ctx db ev)))"
  by (cases ev)
     (simp_all add: criar_usuario_store add_usuario_distinct protected_request_usuarios
        manage_users_distinct)

lemma foldl_step_distinct:
  "distinct (map username (usuarios db)) \<Longrightarrow>
     distinct (map username (usuarios (foldl (step A ctx) db evs)))"
  by (induction evs arbitrary: db) (simp_all add: step_distinct)

lemma manage_users_refuses_empty:
  "falsy arg_username \<Longrightarrow> manage_users ctx salt db Create arg_username arg_password = db"
  by (auto simp: manage_users_def split: option.splits)

text \<open>
  Claim C8 fails in its non-empty half.  On the empty store the registration
  endpoint accepts the empty username and stores a row under it, while the
  creation path of \<^verbatim>\<open>manage_users.py\<close> refuses the same username and password
  (\<^verbatim>\<open>if not args.username or not args.password\<close>) and leaves the store empty.
\<close>

theorem criar_usuario_empty_username:
  "criar_usuario (spec_auth toy_config) ''na'' empty_database
       \<lparr>create_username = [], create_password = ''pw''\<rparr> =
     (Inr \<lparr>schema_username = [], schema_id = 1\<rparr>,
      \<lparr>veiculos = [],
       usuarios = [\<lparr>usuario_id = 1, username = [], hashed_password = ''na$pw''\<rparr>]\<rparr>) \<and>
   manage_users toy_context ''na'' empty_database Create (Some []) (Some ''pw'') =
     empty_database"
  by code_simp

text \<open>
  The uniqueness half holds.  After any history of registrations, protected
  requests and runs of the management script, no two rows of the user table have
  the same username; and an attempt to register a username that is in the table,
  by the endpoint or by \<^verbatim>\<open>crud.create_usuario\<close>, fails on the unique index and
  leaves the store as it was.
\<close>

lemma usernames_unique:
  "distinct (map username (usuarios (run A ctx evs))) \<and>
   (create_username u \<in> set (map username (usuarios db)) \<longrightarrow>
      criar_usuario A salt db u = (Inl IntegrityError, db) \<and>
      create_usuario ctx salt db u = (Inl IntegrityError, db))"
proof -
  have "distinct (map username (usuarios empty_database))"
    by (simp add: empty_database_def)
  then have "distinct (map username (usuarios (run A ctx evs)))"
    unfolding run_def by (rule foldl_step_distinct)
  then show ?thesis
    by (simp add: criar_usuario_def create_usuario_def add_usuario_taken)
qed

lemma usernames_unique_example:
  "distinct (map username (usuarios (run (spec_auth toy_config) toy_context
           [Registration ''na'' \<lparr>create_username = ''alice'', create_password = ''pw''\<rparr>,
            Script ''cl'' Create (Some ''alice'') (Some ''other''),
            Registration ''nb'' \<lparr>create_username = ''alice'', create_password = ''pw2''\<rparr>]))) \<and>
   map username (usuarios (run (spec_auth toy_config) toy_context
           [Registration ''na'' \<lparr>create_username = ''alice'', create_password = ''pw''\<rparr>,
            Script ''cl'' Create (Some ''alice'') (Some ''other''),
            Registration ''nb'' \<lparr>create_username = ''alice'', create_password = ''pw2''\<rparr>])) = [''alice''] \<and>
   criar_usuario (spec_auth toy_config) ''nb'' demo_database
       \<lparr>create_username = ''alice'', create_password = ''pw2''\<rparr> = (Inl IntegrityError, demo_database) \<and>
   create_usuario toy_context ''nb'' demo_database
       \<lparr>create_username = ''alice'', create_password = ''pw2''\<rparr> = (Inl IntegrityError, demo_database)"
proof -
  let ?A = "spec_auth toy_config"
  let ?u = "\<lparr>create_username = ''alice'', create_password = ''pw2''\<rparr>"
  let ?evs = "[Registration ''na'' \<lparr>create_username = ''alice'', create_password = ''pw''\<rparr>,
            Script ''cl'' Create (Some ''alice'') (Some ''other''),
            Registration ''nb'' \<lparr>create_username = ''alice'', create_password = ''pw2''\<rparr>]"
  have taken: "create_username ?u \<in> set (map username (usuarios demo_database))"
    by (simp add: demo_database_def demo_user_def)
  have names: "map username (usuarios (run ?A toy_context ?evs)) = [''alice'']"
    by code_simp
  from usernames_unique [of ?A toy_context ?evs ?u demo_database "''nb''"] taken names
  show ?thesis
    by blast
qed


end
